theory Spec2Isabelle
  imports Main "HOL-Library.Char_ord" "HOL-Library.List_Lexorder" "HOL-Library.Multiset"
begin

section \<open>The cocktail catalogue: data model\<close>

text \<open>
  The three controllers under \<open>app/controllers/httpd\<close> talk to a document store through
  three models (\<open>Cocktail\<close>, \<open>Ingredient\<close>, \<open>CocktailIngredient\<close>).  The store is modelled
  as a record of three lists of documents, in insertion order; every handler takes the store
  and returns its HTTP response, the store afterwards and the store calls it awaited, in the
  order it awaited them.  The store itself never fails here, so the \<open>catch\<close> branch of a
  handler is reached only where a value cannot be cast to the type its schema declares.
  Identifiers and timestamps that the store assigns on insertion are parameters of the
  handlers that insert or update.
\<close>

type_synonym objectid = string

definition isHexChar :: "char \<Rightarrow> bool" where
  "isHexChar c \<longleftrightarrow> c \<in> set ''0123456789abcdefABCDEF''"

text \<open>
  Modelled from the spec: \<open>mongoose.Types.ObjectId.isValid\<close> is library code that is not
  part of the repository.  The spec calls an identifier malformed when it is not a string of
  24 hexadecimal characters.
\<close>

definition isValid :: "string \<Rightarrow> bool" where
  "isValid s \<longleftrightarrow> length s = 24 \<and> list_all isHexChar s"

text \<open>
  Modelled from the spec: the store's identifier type is not part of the repository either.
  The spec calls identifiers store-native and gives their format as 24 hexadecimal characters;
  such a string denotes 12 bytes whatever the case of its digits.  Stored identifiers are kept
  in lower case here, and a string of a request is cast to that form before it is compared
  with them.
\<close>

definition lowerHex :: "char \<Rightarrow> char" where
  "lowerHex c =
     (if c = CHR ''A'' then CHR ''a'' else if c = CHR ''B'' then CHR ''b''
      else if c = CHR ''C'' then CHR ''c'' else if c = CHR ''D'' then CHR ''d''
      else if c = CHR ''E'' then CHR ''e'' else if c = CHR ''F'' then CHR ''f'' else c)"

definition castObjectId :: "string \<Rightarrow> objectid" where
  "castObjectId s = map lowerHex s"

record cocktail =
  c_id :: objectid
  c_name :: string
  c_category :: string
  c_instructions :: string
  c_createdAt :: nat
  c_updatedAt :: nat

record ingredient =
  i_id :: objectid
  i_name :: string
  i_description :: "string option"
  i_isAlcoholic :: bool
  i_image :: "string option"
  i_createdAt :: nat
  i_updatedAt :: nat

record cocktail_ingredient =
  ci_id :: objectid
  cocktailId :: objectid
  ingredientId :: objectid
  quantity :: string
  ci_createdAt :: nat
  ci_updatedAt :: nat

text \<open>A row after \<open>populate('cocktailId ingredientId')\<close>: each reference is replaced by
  the document it names, or by null when there is none.\<close>

record cocktail_ingredient_populated =
  p_id :: objectid
  p_cocktailId :: "cocktail option"
  p_ingredientId :: "ingredient option"
  p_quantity :: string
  p_createdAt :: nat
  p_updatedAt :: nat

record db =
  cocktails :: "cocktail list"
  ingredients :: "ingredient list"
  cocktail_ingredients :: "cocktail_ingredient list"

datatype collection = Cocktail | Ingredient | CocktailIngredient

datatype store_call =
    Find collection
  | FindById collection
  | Create collection
  | FindByIdAndUpdate collection
  | FindByIdAndDelete collection
  | DeleteMany collection
  | Populate collection

datatype 'a response =
    Ok 'a
  | Created 'a
  | BadRequest string
  | NotFound string
  | InternalServerError string

fun status :: "'a response \<Rightarrow> nat" where
  "status (Ok _) = 200"
| "status (Created _) = 201"
| "status (BadRequest _) = 400"
| "status (NotFound _) = 404"
| "status (InternalServerError _) = 500"

type_synonym 'a outcome = "'a response \<times> db \<times> store_call list"

definition resp :: "'a outcome \<Rightarrow> 'a response" where
  "resp out = fst out"

definition store_after :: "'a outcome \<Rightarrow> db" where
  "store_after out = fst (snd out)"

definition store_calls :: "'a outcome \<Rightarrow> store_call list" where
  "store_calls out = snd (snd out)"

text \<open>A query-string parameter under JavaScript's \<open>if (x)\<close>: an absent parameter and the
  empty string are both falsy, every other string is truthy.\<close>

fun supplied :: "string option \<Rightarrow> string option" where
  "supplied None = None"
| "supplied (Some s) = (if s = [] then None else Some s)"

text \<open>The query object of the list handlers.  Its only key is \<open>_id\<close>; an assignment to
  \<open>query._id\<close> replaces whatever the key held.\<close>

datatype id_cond = In_ids "objectid list" | Nin_ids "objectid list"

type_synonym query = "id_cond option"

fun matches :: "query \<Rightarrow> objectid \<Rightarrow> bool" where
  "matches None x = True"
| "matches (Some (In_ids xs)) x = (x \<in> set xs)"
| "matches (Some (Nin_ids xs)) x = (x \<notin> set xs)"

section \<open>The CocktailIngredient controller\<close>

definition populate :: "db \<Rightarrow> cocktail_ingredient \<Rightarrow> cocktail_ingredient_populated" where
  "populate d r =
     \<lparr> p_id = ci_id r,
       p_cocktailId = find (\<lambda>c. c_id c = cocktailId r) (cocktails d),
       p_ingredientId = find (\<lambda>i. i_id i = ingredientId r) (ingredients d),
       p_quantity = quantity r,
       p_createdAt = ci_createdAt r,
       p_updatedAt = ci_updatedAt r \<rparr>"

text \<open>\<open>CocktailIngredientsController.index\<close>.  The documents found by the inner \<open>find\<close> are
  cast to their identifiers when they are put under \<open>$in\<close> of the \<open>_id\<close> key.\<close>

definition ci_index ::
  "db \<Rightarrow> string option \<Rightarrow> string option \<Rightarrow> cocktail_ingredient_populated list outcome" where
  "ci_index d cocktailIdQ ingredientIdQ =
     (let query0 = (None :: query) in
      case (case supplied cocktailIdQ of
              None \<Rightarrow> Inr (query0, [])
            | Some c \<Rightarrow>
                if \<not> isValid c then Inl (BadRequest ''Invalid cocktail ID format'', d, [])
                else Inr (Some (In_ids (map ci_id
                            (filter (\<lambda>r. cocktailId r = castObjectId c) (cocktail_ingredients d)))),
                          [Find CocktailIngredient])) of
        Inl out \<Rightarrow> out
      | Inr (query1, calls1) \<Rightarrow>
         (case (case supplied ingredientIdQ of
                  None \<Rightarrow> Inr (query1, calls1)
                | Some i \<Rightarrow>
                    if \<not> isValid i then Inl (BadRequest ''Invalid ingredient ID format'', d, calls1)
                    else Inr (Some (In_ids (map ci_id
                                (filter (\<lambda>r. ingredientId r = castObjectId i) (cocktail_ingredients d)))),
                              calls1 @ [Find CocktailIngredient])) of
            Inl out \<Rightarrow> out
          | Inr (query2, calls2) \<Rightarrow>
              (let cocktailingredients =
                     filter (\<lambda>r. matches query2 (ci_id r)) (cocktail_ingredients d)
               in if cocktailingredients = []
                  then (NotFound ''No cocktail ingredients found matching the filters'', d,
                        calls2 @ [Find CocktailIngredient])
                  else (Ok (map (populate d) cocktailingredients), d,
                        calls2 @ [Find CocktailIngredient, Populate Cocktail, Populate Ingredient]))))"

text \<open>The fields that \<open>request.only(['cocktailId', 'ingredientId', 'quantity'])\<close> keeps of a
  request body; \<open>None\<close> is a field that the body does not have.\<close>

record ci_body =
  b_cocktailId :: "string option"
  b_ingredientId :: "string option"
  b_quantity :: "string option"

text \<open>\<open>CocktailIngredientsController.store\<close>.\<close>

definition ci_store ::
  "db \<Rightarrow> ci_body \<Rightarrow> objectid \<Rightarrow> nat \<Rightarrow> cocktail_ingredient outcome" where
  "ci_store d data newId now =
     (case (supplied (b_cocktailId data), supplied (b_ingredientId data), supplied (b_quantity data)) of
        (Some c, Some i, Some q) \<Rightarrow>
          if \<not> isValid c then (BadRequest ''Invalid cocktail ID format'', d, [])
          else if \<not> isValid i then (BadRequest ''Invalid ingredient ID format'', d, [])
          else
            (case find (\<lambda>x. c_id x = castObjectId c) (cocktails d) of
               None \<Rightarrow> (NotFound ''Cocktail not found in database'', d, [FindById Cocktail])
             | Some cocktailExists \<Rightarrow>
                 (case find (\<lambda>x. i_id x = castObjectId i) (ingredients d) of
                    None \<Rightarrow> (NotFound ''Ingredient not found in database'', d,
                              [FindById Cocktail, FindById Ingredient])
                  | Some ingredientExists \<Rightarrow>
                      (let cocktailIngredient =
                             \<lparr> ci_id = newId, cocktailId = castObjectId c,
                               ingredientId = castObjectId i, quantity = q,
                               ci_createdAt = now, ci_updatedAt = now \<rparr>
                       in (Created cocktailIngredient,
                           d\<lparr>cocktail_ingredients := cocktail_ingredients d @ [cocktailIngredient]\<rparr>,
                           [FindById Cocktail, FindById Ingredient, Create CocktailIngredient]))))
      | _ \<Rightarrow> (BadRequest ''Missing required fields: cocktailId, ingredientId, quantity'', d, []))"

text \<open>\<open>CocktailIngredientsController.show\<close>.\<close>

definition ci_show :: "db \<Rightarrow> string \<Rightarrow> cocktail_ingredient_populated outcome" where
  "ci_show d ident =
     (if \<not> isValid ident then (BadRequest ''Invalid ID format'', d, [])
      else case find (\<lambda>r. ci_id r = castObjectId ident) (cocktail_ingredients d) of
             None \<Rightarrow> (NotFound ''Cocktail ingredient not found'', d, [FindById CocktailIngredient])
           | Some r \<Rightarrow> (Ok (populate d r), d,
                        [FindById CocktailIngredient, Populate Cocktail, Populate Ingredient]))"

text \<open>\<open>findByIdAndUpdate\<close> and \<open>findByIdAndDelete\<close> act on the first document with the
  identifier.\<close>

fun update_first :: "('a \<Rightarrow> bool) \<Rightarrow> ('a \<Rightarrow> 'a) \<Rightarrow> 'a list \<Rightarrow> 'a list" where
  "update_first P f [] = []"
| "update_first P f (x # xs) = (if P x then f x # xs else x # update_first P f xs)"

fun delete_first :: "('a \<Rightarrow> bool) \<Rightarrow> 'a list \<Rightarrow> 'a list" where
  "delete_first P [] = []"
| "delete_first P (x # xs) = (if P x then xs else x # delete_first P xs)"

text \<open>Whether a field of an update can be cast to the \<open>ObjectId\<close> type that
  \<open>CocktailIngredientSchema\<close> declares for it; an absent field is not cast.\<close>

fun castable :: "string option \<Rightarrow> bool" where
  "castable None = True"
| "castable (Some s) = isValid s"

definition ci_apply :: "ci_body \<Rightarrow> nat \<Rightarrow> cocktail_ingredient \<Rightarrow> cocktail_ingredient" where
  "ci_apply data now r =
     r\<lparr> cocktailId := (case b_cocktailId data of None \<Rightarrow> cocktailId r | Some c \<Rightarrow> castObjectId c),
        ingredientId := (case b_ingredientId data of None \<Rightarrow> ingredientId r | Some i \<Rightarrow> castObjectId i),
        quantity := (case b_quantity data of None \<Rightarrow> quantity r | Some q \<Rightarrow> q),
        ci_updatedAt := now \<rparr>"

text \<open>\<open>CocktailIngredientsController.update\<close>.  The handler checks the identifier of the
  route only.  A \<open>cocktailId\<close> or \<open>ingredientId\<close> of the body that is no identifier makes
  the cast of the update throw before the store is asked, which the handler's \<open>catch\<close>
  turns into the 500 response.\<close>

definition ci_update :: "db \<Rightarrow> string \<Rightarrow> ci_body \<Rightarrow> nat \<Rightarrow> cocktail_ingredient outcome" where
  "ci_update d ident data now =
     (if \<not> isValid ident then (BadRequest ''Invalid ID format'', d, [])
      else if \<not> (castable (b_cocktailId data) \<and> castable (b_ingredientId data))
      then (InternalServerError ''Error updating cocktail ingredient'', d, [])
      else case find (\<lambda>r. ci_id r = castObjectId ident) (cocktail_ingredients d) of
             None \<Rightarrow> (NotFound ''Cocktail ingredient not found'', d,
                       [FindByIdAndUpdate CocktailIngredient])
           | Some r \<Rightarrow>
               (Ok (ci_apply data now r),
                d\<lparr>cocktail_ingredients :=
                     update_first (\<lambda>r. ci_id r = castObjectId ident) (ci_apply data now)
                       (cocktail_ingredients d)\<rparr>,
                [FindByIdAndUpdate CocktailIngredient]))"

text \<open>\<open>CocktailIngredientsController.destroy\<close>.\<close>

definition ci_destroy :: "db \<Rightarrow> string \<Rightarrow> string outcome" where
  "ci_destroy d ident =
     (if \<not> isValid ident then (BadRequest ''Invalid ID format'', d, [])
      else case find (\<lambda>r. ci_id r = castObjectId ident) (cocktail_ingredients d) of
             None \<Rightarrow> (NotFound ''Cocktail ingredient not found'', d,
                       [FindByIdAndDelete CocktailIngredient])
           | Some r \<Rightarrow>
               (Ok ''Cocktail ingredient deleted successfully'',
                d\<lparr>cocktail_ingredients :=
                     delete_first (\<lambda>r. ci_id r = castObjectId ident) (cocktail_ingredients d)\<rparr>,
                [FindByIdAndDelete CocktailIngredient]))"

section \<open>The Cocktail controller\<close>

text \<open>The lookup \<open>sortOptions[sort]\<close> in the object literal of \<open>index\<close>.  The literal has
  the three keys of its own, and like every object literal it inherits the properties of
  \<open>Object.prototype\<close>; an inherited property is a function or an object, so it is truthy
  too.\<close>

datatype js_prop = Own string | Inherited

definition objectPrototypeKeys :: "string list" where
  "objectPrototypeKeys =
     [''constructor'', ''__proto__'', ''hasOwnProperty'', ''isPrototypeOf'',
      ''propertyIsEnumerable'', ''toLocaleString'', ''toString'', ''valueOf'',
      ''__defineGetter__'', ''__defineSetter__'', ''__lookupGetter__'', ''__lookupSetter__'']"

definition sortOptions :: "string \<Rightarrow> js_prop option" where
  "sortOptions s =
     (if s = ''name'' then Some (Own ''name'')
      else if s = ''category'' then Some (Own ''category'')
      else if s = ''date'' then Some (Own ''createdAt'')
      else if s \<in> set objectPrototypeKeys then Some Inherited
      else None)"

text \<open>\<open>.sort({ [key]: 1 })\<close>: ascending by the path \<open>key\<close>, strings by their characters.
  The string form of an inherited property names no path of a cocktail, so no document has a
  value to order by and the documents stay as the store returns them.\<close>

fun order_by :: "js_prop \<Rightarrow> cocktail list \<Rightarrow> cocktail list" where
  "order_by (Own p) cs =
     (if p = ''name'' then sort_key c_name cs
      else if p = ''category'' then sort_key c_category cs
      else if p = ''createdAt'' then sort_key c_createdAt cs
      else cs)"
| "order_by Inherited cs = cs"

text \<open>The identifiers of the cocktails linked to at least one ingredient flagged alcoholic:
  \<open>CocktailIngredient.find({ ingredientId: { $in: Ingredient.find({ isAlcoholic: true })
  .distinct('_id') } }).distinct('cocktailId')\<close>.\<close>

definition alcoholicCocktailIds :: "db \<Rightarrow> objectid list" where
  "alcoholicCocktailIds d =
     remdups (map cocktailId
       (filter (\<lambda>r. ingredientId r \<in> set (remdups (map i_id (filter i_isAlcoholic (ingredients d)))))
          (cocktail_ingredients d)))"

text \<open>\<open>CocktailsController.index\<close>.  \<open>Cocktail.find(query)\<close> only builds the query; it is
  sent to the store where it is awaited, after the check of \<open>sort\<close>.\<close>

definition cocktail_index ::
  "db \<Rightarrow> string option \<Rightarrow> string option \<Rightarrow> string option \<Rightarrow> cocktail list outcome" where
  "cocktail_index d ingredient isAlcoholic sortQ =
     (let query0 = (None :: query) in
      case (case supplied ingredient of
              None \<Rightarrow> Inr (query0, [])
            | Some g \<Rightarrow>
                if \<not> isValid g then Inl (BadRequest ''Invalid ingredient ID format'', d, [])
                else Inr (Some (In_ids (remdups (map cocktailId
                            (filter (\<lambda>r. ingredientId r = castObjectId g) (cocktail_ingredients d))))),
                          [Find CocktailIngredient])) of
        Inl out \<Rightarrow> out
      | Inr (query1, calls1) \<Rightarrow>
         (let (query2, calls2) =
                (case supplied isAlcoholic of
                   None \<Rightarrow> (query1, calls1)
                 | Some a \<Rightarrow>
                     (let isAlcohol = (a = ''true'');
                          cocktailIds = alcoholicCocktailIds d
                      in (if isAlcohol then Some (In_ids cocktailIds) else Some (Nin_ids cocktailIds),
                          calls1 @ [Find Ingredient, Find CocktailIngredient])))
          in case (case supplied sortQ of
                     None \<Rightarrow> Inr (\<lambda>cs. cs)
                   | Some s \<Rightarrow>
                       (case sortOptions s of
                          None \<Rightarrow> Inl (BadRequest
                            ''Invalid sort parameter. Valid options are: name, category, date'',
                            d, calls2)
                        | Some key \<Rightarrow> Inr (order_by key))) of
               Inl out \<Rightarrow> out
             | Inr arrange \<Rightarrow>
                 (let found = arrange (filter (\<lambda>c. matches query2 (c_id c)) (cocktails d))
                  in if found = []
                     then (NotFound ''No cocktails found matching the filters'', d,
                           calls2 @ [Find Cocktail])
                     else (Ok found, d, calls2 @ [Find Cocktail]))))"

record cocktail_body =
  b_name :: "string option"
  b_category :: "string option"
  b_instructions :: "string option"

text \<open>\<open>CocktailsController.store\<close>.\<close>

definition cocktail_store :: "db \<Rightarrow> cocktail_body \<Rightarrow> objectid \<Rightarrow> nat \<Rightarrow> cocktail outcome" where
  "cocktail_store d data newId now =
     (case (supplied (b_name data), supplied (b_category data), supplied (b_instructions data)) of
        (Some n, Some c, Some i) \<Rightarrow>
          (let cocktail = \<lparr> c_id = newId, c_name = n, c_category = c, c_instructions = i,
                            c_createdAt = now, c_updatedAt = now \<rparr>
           in (Created cocktail, d\<lparr>cocktails := cocktails d @ [cocktail]\<rparr>, [Create Cocktail]))
      | _ \<Rightarrow> (BadRequest ''Missing required fields: name, category, instructions'', d, []))"

text \<open>\<open>CocktailsController.show\<close>.\<close>

definition cocktail_show :: "db \<Rightarrow> string \<Rightarrow> cocktail outcome" where
  "cocktail_show d ident =
     (if \<not> isValid ident then (BadRequest ''Invalid ID format'', d, [])
      else case find (\<lambda>c. c_id c = castObjectId ident) (cocktails d) of
             None \<Rightarrow> (NotFound ''Cocktail not found'', d, [FindById Cocktail])
           | Some cocktail \<Rightarrow> (Ok cocktail, d, [FindById Cocktail]))"

definition cocktail_apply :: "cocktail_body \<Rightarrow> nat \<Rightarrow> cocktail \<Rightarrow> cocktail" where
  "cocktail_apply data now c =
     c\<lparr> c_name := (case b_name data of None \<Rightarrow> c_name c | Some n \<Rightarrow> n),
        c_category := (case b_category data of None \<Rightarrow> c_category c | Some g \<Rightarrow> g),
        c_instructions := (case b_instructions data of None \<Rightarrow> c_instructions c | Some i \<Rightarrow> i),
        c_updatedAt := now \<rparr>"

text \<open>\<open>CocktailsController.update\<close>.\<close>

definition cocktail_update :: "db \<Rightarrow> string \<Rightarrow> cocktail_body \<Rightarrow> nat \<Rightarrow> cocktail outcome" where
  "cocktail_update d ident data now =
     (if \<not> isValid ident then (BadRequest ''Invalid ID format'', d, [])
      else case find (\<lambda>c. c_id c = castObjectId ident) (cocktails d) of
             None \<Rightarrow> (NotFound ''Cocktail not found'', d, [FindByIdAndUpdate Cocktail])
           | Some c \<Rightarrow>
               (Ok (cocktail_apply data now c),
                d\<lparr>cocktails :=
                     update_first (\<lambda>c. c_id c = castObjectId ident) (cocktail_apply data now)
                       (cocktails d)\<rparr>,
                [FindByIdAndUpdate Cocktail]))"

text \<open>\<open>CocktailsController.destroy\<close>: the cocktail is deleted first, then every row whose
  \<open>cocktailId\<close> is the identifier of the deleted document.\<close>

definition cocktail_destroy :: "db \<Rightarrow> string \<Rightarrow> string outcome" where
  "cocktail_destroy d ident =
     (if \<not> isValid ident then (BadRequest ''Invalid ID format'', d, [])
      else case find (\<lambda>c. c_id c = castObjectId ident) (cocktails d) of
             None \<Rightarrow> (NotFound ''Cocktail not found'', d, [FindByIdAndDelete Cocktail])
           | Some cocktail \<Rightarrow>
               (Ok ''Cocktail and its ingredients were deleted successfully'',
                d\<lparr>cocktails := delete_first (\<lambda>c. c_id c = castObjectId ident) (cocktails d),
                  cocktail_ingredients :=
                    filter (\<lambda>r. cocktailId r \<noteq> c_id cocktail) (cocktail_ingredients d)\<rparr>,
                [FindByIdAndDelete Cocktail, DeleteMany CocktailIngredient]))"

section \<open>The Ingredient controller\<close>

text \<open>\<open>IngredientsController.index\<close>: every ingredient, with no check of the length of
  the result.\<close>

definition ingredient_index :: "db \<Rightarrow> ingredient list outcome" where
  "ingredient_index d = (Ok (ingredients d), d, [Find Ingredient])"

text \<open>A value of a JSON body as JavaScript sees it.  \<open>JUndefined\<close> is a field that the body
  does not have; a number is given by its string form \<open>String(x)\<close>, which is \<open>0\<close> for
  zero only; an object is given by its fields.\<close>

datatype jsval =
    JUndefined
  | JNull
  | JBool bool
  | JNumber string
  | JString string
  | JArray "jsval list"
  | JObject "(string \<times> jsval) list"

fun typeof :: "jsval \<Rightarrow> string" where
  "typeof JUndefined = ''undefined''"
| "typeof JNull = ''object''"
| "typeof (JBool _) = ''boolean''"
| "typeof (JNumber _) = ''number''"
| "typeof (JString _) = ''string''"
| "typeof (JArray _) = ''object''"
| "typeof (JObject _) = ''object''"

text \<open>The test \<open>!x\<close> of the handler is the negation of this: \<open>undefined\<close>, \<open>null\<close>,
  \<open>false\<close>, zero and the empty string are falsy, every array and object is truthy.\<close>

fun truthy :: "jsval \<Rightarrow> bool" where
  "truthy JUndefined = False"
| "truthy JNull = False"
| "truthy (JBool b) = b"
| "truthy (JNumber x) = (x \<noteq> ''0'')"
| "truthy (JString s) = (s \<noteq> [])"
| "truthy (JArray _) = True"
| "truthy (JObject _) = True"

text \<open>The cast of a value to the \<open>String\<close> type that \<open>IngredientSchema\<close> declares for
  \<open>name\<close>, \<open>description\<close> and \<open>image\<close>; \<open>None\<close> is a cast that fails.  The cast is
  library code: a string is kept, a number or boolean gives its string form, an object with
  a non-empty string under \<open>_id\<close> gives that string, and an array or any other object
  cannot be cast.  The handler has rejected a nullish value before the cast is reached.\<close>

fun castString :: "jsval \<Rightarrow> string option" where
  "castString JUndefined = None"
| "castString JNull = None"
| "castString (JBool b) = Some (if b then ''true'' else ''false'')"
| "castString (JNumber x) = Some x"
| "castString (JString s) = Some s"
| "castString (JArray _) = None"
| "castString (JObject fs) =
     (case map_of fs ''_id'' of
        Some (JString s) \<Rightarrow> if s \<noteq> [] then Some s else None
      | _ \<Rightarrow> None)"

text \<open>The fields that \<open>request.only(['name', 'description', 'isAlcoholic', 'image'])\<close>
  keeps.\<close>

record ingredient_body =
  ib_name :: jsval
  ib_description :: jsval
  ib_isAlcoholic :: jsval
  ib_image :: jsval

text \<open>\<open>IngredientsController.store\<close>.  The handler tests that the three strings are truthy
  and that \<open>isAlcoholic\<close> is a boolean, nothing else.  \<open>Ingredient.create\<close> casts the
  values to the types of the schema before it asks the store; where a cast fails it throws,
  and the handler's \<open>catch\<close> answers 500.\<close>

definition ingredient_store ::
  "db \<Rightarrow> ingredient_body \<Rightarrow> objectid \<Rightarrow> nat \<Rightarrow> ingredient outcome" where
  "ingredient_store d data newId now =
     (if \<not> truthy (ib_name data) \<or> \<not> truthy (ib_description data)
         \<or> typeof (ib_isAlcoholic data) \<noteq> ''boolean'' \<or> \<not> truthy (ib_image data)
      then (BadRequest ''Missing required fields: name, description, isAlcoholic, image'', d, [])
      else
        (case (castString (ib_name data), castString (ib_description data),
               castString (ib_image data)) of
           (Some n, Some ds, Some im) \<Rightarrow>
             (let ingredient = \<lparr> i_id = newId, i_name = n, i_description = Some ds,
                                 i_isAlcoholic = (ib_isAlcoholic data = JBool True),
                                 i_image = Some im,
                                 i_createdAt = now, i_updatedAt = now \<rparr>
              in (Created ingredient, d\<lparr>ingredients := ingredients d @ [ingredient]\<rparr>,
                  [Create Ingredient]))
         | _ \<Rightarrow> (InternalServerError ''Error creating ingredient'', d, [])))"

text \<open>\<open>IngredientsController.show\<close>.\<close>

definition ingredient_show :: "db \<Rightarrow> string \<Rightarrow> ingredient outcome" where
  "ingredient_show d ident =
     (if \<not> isValid ident then (BadRequest ''Invalid ID format'', d, [])
      else case find (\<lambda>i. i_id i = castObjectId ident) (ingredients d) of
             None \<Rightarrow> (NotFound ''Ingredient not found'', d, [FindById Ingredient])
           | Some ingredient \<Rightarrow> (Ok ingredient, d, [FindById Ingredient]))"

text \<open>The fields of an update of an ingredient, each absent or of the type of its path.\<close>

record ingredient_patch =
  ip_name :: "string option"
  ip_description :: "string option"
  ip_isAlcoholic :: "bool option"
  ip_image :: "string option"

definition ingredient_apply :: "ingredient_patch \<Rightarrow> nat \<Rightarrow> ingredient \<Rightarrow> ingredient" where
  "ingredient_apply data now i =
     i\<lparr> i_name := (case ip_name data of None \<Rightarrow> i_name i | Some n \<Rightarrow> n),
        i_description := (case ip_description data of None \<Rightarrow> i_description i | Some x \<Rightarrow> Some x),
        i_isAlcoholic := (case ip_isAlcoholic data of None \<Rightarrow> i_isAlcoholic i | Some a \<Rightarrow> a),
        i_image := (case ip_image data of None \<Rightarrow> i_image i | Some x \<Rightarrow> Some x),
        i_updatedAt := now \<rparr>"

text \<open>\<open>IngredientsController.update\<close>.\<close>

definition ingredient_update ::
  "db \<Rightarrow> string \<Rightarrow> ingredient_patch \<Rightarrow> nat \<Rightarrow> ingredient outcome" where
  "ingredient_update d ident data now =
     (if \<not> isValid ident then (BadRequest ''Invalid ID format'', d, [])
      else case find (\<lambda>i. i_id i = castObjectId ident) (ingredients d) of
             None \<Rightarrow> (NotFound ''Ingredient not found'', d, [FindByIdAndUpdate Ingredient])
           | Some i \<Rightarrow>
               (Ok (ingredient_apply data now i),
                d\<lparr>ingredients :=
                     update_first (\<lambda>i. i_id i = castObjectId ident) (ingredient_apply data now)
                       (ingredients d)\<rparr>,
                [FindByIdAndUpdate Ingredient]))"

text \<open>\<open>IngredientsController.destroy\<close>: the ingredient is deleted first, then every row
  whose \<open>ingredientId\<close> is the identifier of the deleted document.\<close>

definition ingredient_destroy :: "db \<Rightarrow> string \<Rightarrow> string outcome" where
  "ingredient_destroy d ident =
     (if \<not> isValid ident then (BadRequest ''Invalid ID format'', d, [])
      else case find (\<lambda>i. i_id i = castObjectId ident) (ingredients d) of
             None \<Rightarrow> (NotFound ''Ingredient not found'', d, [FindByIdAndDelete Ingredient])
           | Some ingredient \<Rightarrow>
               (Ok ''Ingredient deleted successfully'',
                d\<lparr>ingredients := delete_first (\<lambda>i. i_id i = castObjectId ident) (ingredients d),
                  cocktail_ingredients :=
                    filter (\<lambda>r. ingredientId r \<noteq> i_id ingredient) (cocktail_ingredients d)\<rparr>,
                [FindByIdAndDelete Ingredient, DeleteMany CocktailIngredient]))"

section \<open>The statements of the specification\<close>

text \<open>The documents in the body of a list response; an error response carries none.\<close>

definition returned :: "'a list response \<Rightarrow> 'a list" where
  "returned r = (case r of Ok xs \<Rightarrow> xs | _ \<Rightarrow> [])"

text \<open>For comparison with \<open>ci_index\<close>: the response that the logical AND of the two
  filters would give, rows whose \<open>cocktailId\<close> and \<open>ingredientId\<close> both match.  The
  handler does not compute this.\<close>

definition ci_index_conjunction ::
  "db \<Rightarrow> string \<Rightarrow> string \<Rightarrow> cocktail_ingredient_populated list response" where
  "ci_index_conjunction d c i =
     (let rows = filter (\<lambda>r. cocktailId r = castObjectId c \<and> ingredientId r = castObjectId i)
                   (cocktail_ingredients d)
      in if rows = [] then NotFound ''No cocktail ingredients found matching the filters''
         else Ok (map (populate d) rows))"

text \<open>In the words of the specification: a cocktail is linked, by a CocktailIngredient row,
  to at least one ingredient whose \<open>isAlcoholic\<close> flag is true.\<close>

definition has_alcoholic_ingredient :: "db \<Rightarrow> cocktail \<Rightarrow> bool" where
  "has_alcoholic_ingredient d c \<longleftrightarrow>
     (\<exists>r \<in> set (cocktail_ingredients d). cocktailId r = c_id c \<and>
        (\<exists>i \<in> set (ingredients d). i_id i = ingredientId r \<and> i_isAlcoholic i))"

section \<open>An example store\<close>

text \<open>The scenario of the specification: the ingredients Lime and Tequila, the cocktail
  Margarita linked to both, and beside them a Limeade that is linked to Lime only and a
  cocktail Water with no ingredient.\<close>

definition limeId :: objectid where "limeId = ''aaaaaaaaaaaaaaaaaaaaaaa1''"
definition tequilaId :: objectid where "tequilaId = ''aaaaaaaaaaaaaaaaaaaaaaa2''"
definition margaritaId :: objectid where "margaritaId = ''bbbbbbbbbbbbbbbbbbbbbbb1''"
definition limeadeId :: objectid where "limeadeId = ''bbbbbbbbbbbbbbbbbbbbbbb2''"
definition waterId :: objectid where "waterId = ''bbbbbbbbbbbbbbbbbbbbbbb3''"
definition absentId :: objectid where "absentId = ''ddddddddddddddddddddddd1''"

definition lime :: ingredient where
  "lime = \<lparr> i_id = limeId, i_name = ''Lime'', i_description = None, i_isAlcoholic = False,
            i_image = None, i_createdAt = 1, i_updatedAt = 1 \<rparr>"

definition tequila :: ingredient where
  "tequila = \<lparr> i_id = tequilaId, i_name = ''Tequila'', i_description = None,
               i_isAlcoholic = True, i_image = None, i_createdAt = 2, i_updatedAt = 2 \<rparr>"

definition margarita :: cocktail where
  "margarita = \<lparr> c_id = margaritaId, c_name = ''Margarita'', c_category = ''Cocktail'',
                 c_instructions = ''Mix'', c_createdAt = 3, c_updatedAt = 3 \<rparr>"

definition limeade :: cocktail where
  "limeade = \<lparr> c_id = limeadeId, c_name = ''Limeade'', c_category = ''Mocktail'',
               c_instructions = ''Stir'', c_createdAt = 4, c_updatedAt = 4 \<rparr>"

definition water :: cocktail where
  "water = \<lparr> c_id = waterId, c_name = ''Water'', c_category = ''Soft'',
             c_instructions = ''Pour'', c_createdAt = 5, c_updatedAt = 5 \<rparr>"

definition row1 :: cocktail_ingredient where
  "row1 = \<lparr> ci_id = ''ccccccccccccccccccccccc1'', cocktailId = margaritaId,
            ingredientId = limeId, quantity = ''1 oz'', ci_createdAt = 6, ci_updatedAt = 6 \<rparr>"

definition row2 :: cocktail_ingredient where
  "row2 = \<lparr> ci_id = ''ccccccccccccccccccccccc2'', cocktailId = margaritaId,
            ingredientId = tequilaId, quantity = ''2 oz'', ci_createdAt = 7, ci_updatedAt = 7 \<rparr>"

definition row3 :: cocktail_ingredient where
  "row3 = \<lparr> ci_id = ''ccccccccccccccccccccccc3'', cocktailId = limeadeId,
            ingredientId = limeId, quantity = ''3 oz'', ci_createdAt = 8, ci_updatedAt = 8 \<rparr>"

definition bar :: db where
  "bar = \<lparr> cocktails = [margarita, limeade, water], ingredients = [lime, tequila],
           cocktail_ingredients = [row1, row2, row3] \<rparr>"

definition empty_store :: db where
  "empty_store = \<lparr> cocktails = [], ingredients = [], cocktail_ingredients = [] \<rparr>"

lemmas example_defs =
  limeId_def tequilaId_def margaritaId_def limeadeId_def waterId_def absentId_def
  lime_def tequila_def margarita_def limeade_def water_def row1_def row2_def row3_def
  bar_def empty_store_def

section \<open>Properties\<close>

subsection \<open>Auxiliary facts\<close>

lemma isValid_examples:
  "isValid limeId" "isValid tequilaId" "isValid margaritaId" "isValid limeadeId"
  "isValid waterId" "isValid absentId" "isValid ''ccccccccccccccccccccccc1''"
  by (simp_all add: example_defs isValid_def isHexChar_def)

lemma cast_examples:
  "castObjectId limeId = limeId" "castObjectId tequilaId = tequilaId"
  "castObjectId margaritaId = margaritaId" "castObjectId limeadeId = limeadeId"
  "castObjectId waterId = waterId" "castObjectId absentId = absentId"
  "castObjectId ''ccccccccccccccccccccccc1'' = ''ccccccccccccccccccccccc1''"
  by (simp_all add: example_defs castObjectId_def lowerHex_def)

lemma isValid_not_Nil: "isValid s \<Longrightarrow> s \<noteq> []"
  by (auto simp: isValid_def)

lemma filter_in_ids:
  assumes "distinct (map f xs)"
  shows "filter (\<lambda>r. f r \<in> set (map f (filter P xs))) xs = filter P xs"
proof (rule filter_cong [OF refl])
  fix r assume r: "r \<in> set xs"
  from assms have inj: "inj_on f (set xs)" by (simp add: distinct_map)
  show "(f r \<in> set (map f (filter P xs))) = P r"
  proof
    assume "f r \<in> set (map f (filter P xs))"
    then obtain y where y: "y \<in> set xs" "P y" "f y = f r" by auto
    with inj r have "y = r" by (auto dest: inj_onD)
    with y show "P r" by simp
  next
    assume "P r" with r show "f r \<in> set (map f (filter P xs))" by auto
  qed
qed

lemma sort_key_Nil_iff: "sort_key f xs = [] \<longleftrightarrow> xs = []"
  by (metis length_sort length_0_conv)

lemma find_Some_mem: "find P xs = Some x \<Longrightarrow> x \<in> set xs \<and> P x"
  by (induction xs) (auto split: if_splits)

lemma find_by_id_exists:
  "k \<in> set (map f xs) \<Longrightarrow> \<exists>x. find (\<lambda>y. f y = k) xs = Some x \<and> f x = k"
  by (induction xs) auto

lemma find_by_id_None: "k \<notin> set (map f xs) \<Longrightarrow> find (\<lambda>y. f y = k) xs = None"
  by (induction xs) auto

lemma find_update_first_mem: "find P xs = Some r \<Longrightarrow> f r \<in> set (update_first P f xs)"
  by (induction xs) (auto split: if_splits)

subsection \<open>C1: the second filter of the CocktailIngredient list replaces the first\<close>

lemma ci_index_overwrite:
  "isValid c \<Longrightarrow> isValid i \<Longrightarrow> resp (ci_index d (Some c) (Some i)) = resp (ci_index d None (Some i))"
  by (simp add: ci_index_def resp_def isValid_not_Nil Let_def)

lemma ci_index_ingredient_rows:
  assumes "isValid i" "distinct (map ci_id (cocktail_ingredients d))"
  shows "resp (ci_index d None (Some i)) =
     (let rows = filter (\<lambda>r. ingredientId r = castObjectId i) (cocktail_ingredients d)
      in if rows = [] then NotFound ''No cocktail ingredients found matching the filters''
         else Ok (map (populate d) rows))"
  using assms(1) filter_in_ids [OF assms(2), of "\<lambda>r. ingredientId r = castObjectId i"]
  by (simp add: ci_index_def resp_def isValid_not_Nil Let_def)

lemma bar_both: "resp (ci_index bar (Some margaritaId) (Some limeId)) = Ok [populate bar row1, populate bar row3]"
  by code_simp

lemma bar_conj: "ci_index_conjunction bar margaritaId limeId = Ok [populate bar row1]"
  by code_simp

text \<open>Claim C1.  When the CocktailIngredient list is given a well-formed \<open>cocktailId\<close>
  and a well-formed \<open>ingredientId\<close>, its response is the response to the
  \<open>ingredientId\<close> filter alone: the second assignment to the \<open>_id\<close>
  key of the query replaces the first.  With store identifiers that are unique, the rows
  returned are exactly the rows of that ingredient, whatever their cocktail.  This is not the
  logical AND of the two filters: in the example store, asking for Margarita and Lime also
  returns the row that links Lime to the Limeade.\<close>

theorem ci_index_last_filter_wins:
  "(isValid c \<and> isValid i \<longrightarrow>
      resp (ci_index d (Some c) (Some i)) = resp (ci_index d None (Some i)))
   \<and> (isValid c \<and> isValid i \<and> distinct (map ci_id (cocktail_ingredients d)) \<longrightarrow>
      resp (ci_index d (Some c) (Some i)) =
        (let rows = filter (\<lambda>r. ingredientId r = castObjectId i) (cocktail_ingredients d)
         in if rows = [] then NotFound ''No cocktail ingredients found matching the filters''
            else Ok (map (populate d) rows)))
   \<and> resp (ci_index bar (Some margaritaId) (Some limeId)) \<noteq> ci_index_conjunction bar margaritaId limeId"
  using ci_index_overwrite [of c i d] ci_index_ingredient_rows [of i d]
  by (simp add: bar_both bar_conj)

theorem ci_index_last_filter_wins_witness:
  "isValid margaritaId \<and> isValid limeId \<and> distinct (map ci_id (cocktail_ingredients bar))
   \<and> resp (ci_index bar None (Some limeId)) = Ok [populate bar row1, populate bar row3]
   \<and> filter (\<lambda>r. ingredientId r = castObjectId limeId) (cocktail_ingredients bar) = [row1, row3]"
proof -
  have v: "isValid margaritaId \<and> isValid limeId" by (simp add: isValid_examples)
  have dst: "distinct (map ci_id (cocktail_ingredients bar))" by (simp add: example_defs)
  have rows: "filter (\<lambda>r. ingredientId r = castObjectId limeId) (cocktail_ingredients bar) = [row1, row3]"
    by (simp add: cast_examples) (simp add: example_defs)
  from ci_index_last_filter_wins [of margaritaId limeId bar] v
  have "resp (ci_index bar (Some margaritaId) (Some limeId)) = resp (ci_index bar None (Some limeId))"
    by blast
  with v dst rows show ?thesis by (simp add: bar_both)
qed

subsection \<open>C2: malformed identifiers\<close>

lemma malformed_id_scoped:
  assumes "\<not> isValid s"
  shows "cocktail_show d s = (BadRequest ''Invalid ID format'', d, [])"
    and "cocktail_update d s cb now = (BadRequest ''Invalid ID format'', d, [])"
    and "cocktail_destroy d s = (BadRequest ''Invalid ID format'', d, [])"
    and "ingredient_show d s = (BadRequest ''Invalid ID format'', d, [])"
    and "ingredient_update d s ip now = (BadRequest ''Invalid ID format'', d, [])"
    and "ingredient_destroy d s = (BadRequest ''Invalid ID format'', d, [])"
    and "ci_show d s = (BadRequest ''Invalid ID format'', d, [])"
    and "ci_update d s cib now = (BadRequest ''Invalid ID format'', d, [])"
    and "ci_destroy d s = (BadRequest ''Invalid ID format'', d, [])"
  using assms
  by (simp_all add: cocktail_show_def cocktail_update_def cocktail_destroy_def
        ingredient_show_def ingredient_update_def ingredient_destroy_def
        ci_show_def ci_update_def ci_destroy_def)

lemma malformed_list_filters:
  assumes "\<not> isValid s" "s \<noteq> []"
  shows "cocktail_index d (Some s) a q = (BadRequest ''Invalid ingredient ID format'', d, [])"
    and "ci_index d (Some s) i = (BadRequest ''Invalid cocktail ID format'', d, [])"
    and "status (resp (ci_index d c (Some s))) = 400"
    and "store_after (ci_index d c (Some s)) = d"
    and "store_calls (ci_index d c (Some s)) =
           (case supplied c of None \<Rightarrow> []
            | Some c' \<Rightarrow> if isValid c' then [Find CocktailIngredient] else [])"
  using assms
  by (simp_all add: cocktail_index_def ci_index_def resp_def store_after_def store_calls_def Let_def
        split: option.splits)

text \<open>Claim C2, as amended.  For an identifier that is not a string of 24 hexadecimal characters,
  get-by-id, update and delete of each of the three resources answer 400 and leave the store
  untouched, with no store call.  The identifier filters of the two list operations answer 400
  when the malformed value is not empty, and leave the store as it was; no store call precedes
  the answer, except that the CocktailIngredient list has already run the lookup for a
  well-formed \<open>cocktailId\<close> by the time it rejects a malformed
  \<open>ingredientId\<close>.  (An empty filter value is treated as an absent filter.)\<close>

theorem malformed_identifier_rejected:
  "\<not> isValid s \<longrightarrow>
     cocktail_show d s = (BadRequest ''Invalid ID format'', d, [])
   \<and> cocktail_update d s cb now = (BadRequest ''Invalid ID format'', d, [])
   \<and> cocktail_destroy d s = (BadRequest ''Invalid ID format'', d, [])
   \<and> ingredient_show d s = (BadRequest ''Invalid ID format'', d, [])
   \<and> ingredient_update d s ip now = (BadRequest ''Invalid ID format'', d, [])
   \<and> ingredient_destroy d s = (BadRequest ''Invalid ID format'', d, [])
   \<and> ci_show d s = (BadRequest ''Invalid ID format'', d, [])
   \<and> ci_update d s cib now = (BadRequest ''Invalid ID format'', d, [])
   \<and> ci_destroy d s = (BadRequest ''Invalid ID format'', d, [])
   \<and> (s \<noteq> [] \<longrightarrow>
        cocktail_index d (Some s) a q = (BadRequest ''Invalid ingredient ID format'', d, [])
      \<and> ci_index d (Some s) i = (BadRequest ''Invalid cocktail ID format'', d, [])
      \<and> status (resp (ci_index d c (Some s))) = 400
      \<and> store_after (ci_index d c (Some s)) = d
      \<and> store_calls (ci_index d c (Some s)) =
           (case supplied c of None \<Rightarrow> []
            | Some c' \<Rightarrow> if isValid c' then [Find CocktailIngredient] else []))"
proof (intro impI conjI)
  assume s: "\<not> isValid s"
  show "cocktail_show d s = (BadRequest ''Invalid ID format'', d, [])"
    "cocktail_update d s cb now = (BadRequest ''Invalid ID format'', d, [])"
    "cocktail_destroy d s = (BadRequest ''Invalid ID format'', d, [])"
    "ingredient_show d s = (BadRequest ''Invalid ID format'', d, [])"
    "ingredient_update d s ip now = (BadRequest ''Invalid ID format'', d, [])"
    "ingredient_destroy d s = (BadRequest ''Invalid ID format'', d, [])"
    "ci_show d s = (BadRequest ''Invalid ID format'', d, [])"
    "ci_update d s cib now = (BadRequest ''Invalid ID format'', d, [])"
    "ci_destroy d s = (BadRequest ''Invalid ID format'', d, [])"
    by (rule malformed_id_scoped [OF s])+
  assume ne: "s \<noteq> []"
  show "cocktail_index d (Some s) a q = (BadRequest ''Invalid ingredient ID format'', d, [])"
    "ci_index d (Some s) i = (BadRequest ''Invalid cocktail ID format'', d, [])"
    "status (resp (ci_index d c (Some s))) = 400"
    "store_after (ci_index d c (Some s)) = d"
    "store_calls (ci_index d c (Some s)) =
           (case supplied c of None \<Rightarrow> []
            | Some c' \<Rightarrow> if isValid c' then [Find CocktailIngredient] else [])"
    by (rule malformed_list_filters [OF s ne])+
qed

theorem malformed_identifier_rejected_witness:
  "\<not> isValid ''xyz'' \<and> ''xyz'' \<noteq> []
   \<and> cocktail_show bar ''xyz'' = (BadRequest ''Invalid ID format'', bar, [])
   \<and> ci_destroy bar ''xyz'' = (BadRequest ''Invalid ID format'', bar, [])
   \<and> cocktail_index bar (Some ''xyz'') None None
       = (BadRequest ''Invalid ingredient ID format'', bar, [])
   \<and> status (resp (ci_index bar None (Some ''xyz''))) = 400
   \<and> store_calls (ci_index bar None (Some ''xyz'')) = []"
proof -
  have n: "\<not> isValid ''xyz'' \<and> ''xyz'' \<noteq> []" by (simp add: isValid_def)
  from malformed_identifier_rejected [of "''xyz''" bar _ _ _ _ None None _ None] n
  show ?thesis by simp
qed

theorem malformed_identifier_rejected_counterexample:
  "\<not> isValid '''' 
   \<and> resp (cocktail_index bar (Some '''') None None) = Ok [margarita, limeade, water]
   \<and> store_calls (cocktail_index bar (Some '''') None None) = [Find Cocktail]
   \<and> \<not> isValid ''xyz'' \<and> isValid margaritaId
   \<and> status (resp (ci_index bar (Some margaritaId) (Some ''xyz''))) = 400
   \<and> store_calls (ci_index bar (Some margaritaId) (Some ''xyz'')) = [Find CocktailIngredient]"
  by code_simp

subsection \<open>C3: the isAlcoholic filter of the cocktail list\<close>

lemma alcoholic_ids_iff:
  "c_id c \<in> set (alcoholicCocktailIds d) \<longleftrightarrow> has_alcoholic_ingredient d c"
proof
  assume "c_id c \<in> set (alcoholicCocktailIds d)"
  then obtain r where r: "r \<in> set (cocktail_ingredients d)" "cocktailId r = c_id c"
      "ingredientId r \<in> set (map i_id (filter i_isAlcoholic (ingredients d)))"
    by (auto simp: alcoholicCocktailIds_def)
  from r(3) obtain i where "i \<in> set (ingredients d)" "i_isAlcoholic i" "i_id i = ingredientId r"
    by auto
  with r(1,2) show "has_alcoholic_ingredient d c"
    unfolding has_alcoholic_ingredient_def by blast
next
  assume "has_alcoholic_ingredient d c"
  then obtain r i where ri: "r \<in> set (cocktail_ingredients d)" "cocktailId r = c_id c"
      "i \<in> set (ingredients d)" "i_id i = ingredientId r" "i_isAlcoholic i"
    unfolding has_alcoholic_ingredient_def by blast
  then have "ingredientId r \<in> set (remdups (map i_id (filter i_isAlcoholic (ingredients d))))"
    by force
  with ri(1) have "r \<in> set (filter (\<lambda>r. ingredientId r \<in> set (remdups (map i_id (filter i_isAlcoholic (ingredients d)))))
          (cocktail_ingredients d))"
    by simp
  then have "cocktailId r \<in> set (alcoholicCocktailIds d)"
    unfolding alcoholicCocktailIds_def by (simp only: set_remdups set_map) (rule imageI)
  with ri(2) show "c_id c \<in> set (alcoholicCocktailIds d)" by simp
qed

lemma cocktail_index_alcoholic_true:
  "resp (cocktail_index d None (Some ''true'') None) =
     (let cs = filter (has_alcoholic_ingredient d) (cocktails d)
      in if cs = [] then NotFound ''No cocktails found matching the filters'' else Ok cs)"
  by (simp add: cocktail_index_def resp_def Let_def alcoholic_ids_iff)

lemma cocktail_index_alcoholic_false:
  "resp (cocktail_index d None (Some ''false'') None) =
     (let cs = filter (\<lambda>c. \<not> has_alcoholic_ingredient d c) (cocktails d)
      in if cs = [] then NotFound ''No cocktails found matching the filters'' else Ok cs)"
  by (simp add: cocktail_index_def resp_def Let_def alcoholic_ids_iff)

text \<open>Claim C3.  For every store, the cocktails returned for \<open>isAlcoholic=true\<close> are
  exactly the cocktails linked by some CocktailIngredient row to an ingredient flagged
  alcoholic, and those returned for \<open>isAlcoholic=false\<close> are exactly the other
  cocktails of the store, cocktails without any ingredient included.  The cocktails come in a
  200 response; when there is none to return, the response is the 404 of an empty result.\<close>

theorem cocktail_index_isAlcoholic:
  "returned (resp (cocktail_index d None (Some ''true'') None))
     = filter (has_alcoholic_ingredient d) (cocktails d)
   \<and> returned (resp (cocktail_index d None (Some ''false'') None))
     = filter (\<lambda>c. \<not> has_alcoholic_ingredient d c) (cocktails d)
   \<and> status (resp (cocktail_index d None (Some ''true'') None))
     = (if filter (has_alcoholic_ingredient d) (cocktails d) = [] then 404 else 200)
   \<and> status (resp (cocktail_index d None (Some ''false'') None))
     = (if filter (\<lambda>c. \<not> has_alcoholic_ingredient d c) (cocktails d) = [] then 404 else 200)"
  by (simp add: cocktail_index_alcoholic_true cocktail_index_alcoholic_false returned_def Let_def)

theorem cocktail_index_isAlcoholic_witness:
  "returned (resp (cocktail_index bar None (Some ''true'') None)) = [margarita]
   \<and> returned (resp (cocktail_index bar None (Some ''false'') None)) = [limeade, water]
   \<and> has_alcoholic_ingredient bar margarita \<and> \<not> has_alcoholic_ingredient bar limeade
   \<and> \<not> has_alcoholic_ingredient bar water
   \<and> status (resp (cocktail_index bar None (Some ''true'') None)) = 200"
proof -
  have m: "has_alcoholic_ingredient bar margarita" by code_simp
  have l: "\<not> has_alcoholic_ingredient bar limeade" by code_simp
  have w: "\<not> has_alcoholic_ingredient bar water" by code_simp
  have cs: "cocktails bar = [margarita, limeade, water]" by (simp add: bar_def)
  from cocktail_index_isAlcoholic [of bar] m l w cs show ?thesis by simp
qed

subsection \<open>C4: deleting a cocktail or an ingredient removes its rows\<close>

lemma cocktail_destroy_existing:
  assumes "isValid ident" "castObjectId ident \<in> set (map c_id (cocktails d))"
  shows "resp (cocktail_destroy d ident) = Ok ''Cocktail and its ingredients were deleted successfully''"
    and "filter (\<lambda>r. cocktailId r = castObjectId ident)
           (cocktail_ingredients (store_after (cocktail_destroy d ident))) = []"
proof -
  from find_by_id_exists [OF assms(2)] obtain c where
    c: "find (\<lambda>y. c_id y = castObjectId ident) (cocktails d) = Some c" "c_id c = castObjectId ident"
    by blast
  from assms(1) c show "resp (cocktail_destroy d ident)
      = Ok ''Cocktail and its ingredients were deleted successfully''"
    by (simp add: cocktail_destroy_def resp_def)
  from assms(1) c show "filter (\<lambda>r. cocktailId r = castObjectId ident)
           (cocktail_ingredients (store_after (cocktail_destroy d ident))) = []"
    by (simp add: cocktail_destroy_def store_after_def filter_empty_conv)
qed

lemma ingredient_destroy_existing:
  assumes "isValid ident" "castObjectId ident \<in> set (map i_id (ingredients d))"
  shows "resp (ingredient_destroy d ident) = Ok ''Ingredient deleted successfully''"
    and "filter (\<lambda>r. ingredientId r = castObjectId ident)
           (cocktail_ingredients (store_after (ingredient_destroy d ident))) = []"
proof -
  from find_by_id_exists [OF assms(2)] obtain c where
    c: "find (\<lambda>y. i_id y = castObjectId ident) (ingredients d) = Some c" "i_id c = castObjectId ident"
    by blast
  from assms(1) c show "resp (ingredient_destroy d ident) = Ok ''Ingredient deleted successfully''"
    by (simp add: ingredient_destroy_def resp_def)
  from assms(1) c show "filter (\<lambda>r. ingredientId r = castObjectId ident)
           (cocktail_ingredients (store_after (ingredient_destroy d ident))) = []"
    by (simp add: ingredient_destroy_def store_after_def filter_empty_conv)
qed

lemma cocktail_destroy_ok_no_rows:
  "status (resp (cocktail_destroy d ident)) = 200 \<Longrightarrow>
   filter (\<lambda>r. cocktailId r = castObjectId ident)
     (cocktail_ingredients (store_after (cocktail_destroy d ident))) = []"
  by (auto simp: cocktail_destroy_def resp_def store_after_def filter_empty_conv
           split: if_splits option.splits dest: find_Some_mem)

lemma ingredient_destroy_ok_no_rows:
  "status (resp (ingredient_destroy d ident)) = 200 \<Longrightarrow>
   filter (\<lambda>r. ingredientId r = castObjectId ident)
     (cocktail_ingredients (store_after (ingredient_destroy d ident))) = []"
  by (auto simp: ingredient_destroy_def resp_def store_after_def filter_empty_conv
           split: if_splits option.splits dest: find_Some_mem)

text \<open>Claim C4.  Deleting a cocktail that exists in the store succeeds with 200, and afterwards no
  CocktailIngredient row references that cocktail, however many did before; whenever the
  delete answers 200 no such row is left.  The same holds for deleting an ingredient.\<close>

theorem destroy_cascades:
  "(isValid ident \<and> castObjectId ident \<in> set (map c_id (cocktails d)) \<longrightarrow>
      status (resp (cocktail_destroy d ident)) = 200
      \<and> filter (\<lambda>r. cocktailId r = castObjectId ident)
           (cocktail_ingredients (store_after (cocktail_destroy d ident))) = [])
   \<and> (isValid ident \<and> castObjectId ident \<in> set (map i_id (ingredients d)) \<longrightarrow>
      status (resp (ingredient_destroy d ident)) = 200
      \<and> filter (\<lambda>r. ingredientId r = castObjectId ident)
           (cocktail_ingredients (store_after (ingredient_destroy d ident))) = [])
   \<and> (status (resp (cocktail_destroy d ident)) = 200 \<longrightarrow>
        filter (\<lambda>r. cocktailId r = castObjectId ident)
           (cocktail_ingredients (store_after (cocktail_destroy d ident))) = [])
   \<and> (status (resp (ingredient_destroy d ident)) = 200 \<longrightarrow>
        filter (\<lambda>r. ingredientId r = castObjectId ident)
           (cocktail_ingredients (store_after (ingredient_destroy d ident))) = [])"
  using cocktail_destroy_existing [of ident d] ingredient_destroy_existing [of ident d]
    cocktail_destroy_ok_no_rows [of d ident] ingredient_destroy_ok_no_rows [of d ident]
  by simp

theorem destroy_cascades_witness:
  "isValid margaritaId \<and> castObjectId margaritaId \<in> set (map c_id (cocktails bar))
   \<and> length (filter (\<lambda>r. cocktailId r = castObjectId margaritaId) (cocktail_ingredients bar)) = 2
   \<and> status (resp (cocktail_destroy bar margaritaId)) = 200
   \<and> cocktail_ingredients (store_after (cocktail_destroy bar margaritaId)) = [row3]
   \<and> filter (\<lambda>r. cocktailId r = castObjectId margaritaId)
        (cocktail_ingredients (store_after (cocktail_destroy bar margaritaId))) = []
   \<and> isValid limeId \<and> castObjectId limeId \<in> set (map i_id (ingredients bar))
   \<and> status (resp (ingredient_destroy bar limeId)) = 200
   \<and> cocktail_ingredients (store_after (ingredient_destroy bar limeId)) = [row2]
   \<and> filter (\<lambda>r. ingredientId r = castObjectId limeId)
        (cocktail_ingredients (store_after (ingredient_destroy bar limeId))) = []"
proof -
  have vl: "isValid limeId" by (simp add: isValid_examples)
  have ml: "castObjectId limeId \<in> set (map i_id (ingredients bar))" by code_simp
  have al: "cocktail_ingredients (store_after (ingredient_destroy bar limeId)) = [row2]"
    by code_simp
  have v: "isValid margaritaId" by (simp add: isValid_examples)
  have m: "castObjectId margaritaId \<in> set (map c_id (cocktails bar))" by code_simp
  have n: "length (filter (\<lambda>r. cocktailId r = castObjectId margaritaId) (cocktail_ingredients bar)) = 2"
    by code_simp
  have a: "cocktail_ingredients (store_after (cocktail_destroy bar margaritaId)) = [row3]"
    by code_simp
  from destroy_cascades [of margaritaId bar] destroy_cascades [of limeId bar] v m n a vl ml al
  show ?thesis by simp
qed

subsection \<open>C5: creating a CocktailIngredient checks both references first\<close>

lemma ci_store_missing_reference:
  assumes "isValid c" "isValid i" "q \<noteq> []"
    and "castObjectId c \<notin> set (map c_id (cocktails d))
         \<or> castObjectId i \<notin> set (map i_id (ingredients d))"
  shows "status (resp (ci_store d \<lparr>b_cocktailId = Some c, b_ingredientId = Some i,
                                  b_quantity = Some q\<rparr> newId now)) = 404
       \<and> store_after (ci_store d \<lparr>b_cocktailId = Some c, b_ingredientId = Some i,
                                  b_quantity = Some q\<rparr> newId now) = d
       \<and> Create CocktailIngredient \<notin> set (store_calls (ci_store d
            \<lparr>b_cocktailId = Some c, b_ingredientId = Some i, b_quantity = Some q\<rparr> newId now))"
proof (cases "find (\<lambda>x. c_id x = castObjectId c) (cocktails d)")
  case None
  with assms(1-3) show ?thesis
    by (simp add: ci_store_def resp_def store_after_def store_calls_def isValid_not_Nil)
next
  case (Some x)
  from find_Some_mem [OF Some] have "castObjectId c \<in> set (map c_id (cocktails d))"
    by force
  with assms(4) have "castObjectId i \<notin> set (map i_id (ingredients d))" by simp
  then have "find (\<lambda>x. i_id x = castObjectId i) (ingredients d) = None"
    by (rule find_by_id_None)
  with Some assms(1-3) show ?thesis
    by (simp add: ci_store_def resp_def store_after_def store_calls_def isValid_not_Nil)
qed

lemma ci_store_not_created_unchanged:
  "status (resp (ci_store d data newId now)) \<noteq> 201 \<Longrightarrow> store_after (ci_store d data newId now) = d"
  by (auto simp: ci_store_def resp_def store_after_def Let_def
           split: option.splits if_splits)

lemma ci_store_checks_before_insert:
  "Create CocktailIngredient \<in> set (store_calls (ci_store d data newId now)) \<Longrightarrow>
   store_calls (ci_store d data newId now)
     = [FindById Cocktail, FindById Ingredient, Create CocktailIngredient]"
  by (auto simp: ci_store_def store_calls_def Let_def split: option.splits if_splits)

text \<open>Claim C5, as amended.  A create request with a well-formed \<open>cocktailId\<close>, a
  well-formed \<open>ingredientId\<close> and a non-empty \<open>quantity\<close>, where the
  cocktail or the ingredient is not in the store, answers 404, leaves the store unchanged and
  never calls the insert.  Whatever the request, a response other than 201 leaves the store
  unchanged, and an insert is always preceded by the two existence checks, cocktail first.\<close>

theorem ci_store_reference_checks:
  "(isValid c \<and> isValid i \<and> q \<noteq> []
      \<and> (castObjectId c \<notin> set (map c_id (cocktails d))
          \<or> castObjectId i \<notin> set (map i_id (ingredients d))) \<longrightarrow>
      status (resp (ci_store d \<lparr>b_cocktailId = Some c, b_ingredientId = Some i,
                                 b_quantity = Some q\<rparr> newId now)) = 404
      \<and> store_after (ci_store d \<lparr>b_cocktailId = Some c, b_ingredientId = Some i,
                                 b_quantity = Some q\<rparr> newId now) = d
      \<and> Create CocktailIngredient \<notin> set (store_calls (ci_store d
            \<lparr>b_cocktailId = Some c, b_ingredientId = Some i, b_quantity = Some q\<rparr> newId now)))
   \<and> (status (resp (ci_store d data newId now)) \<noteq> 201 \<longrightarrow>
        store_after (ci_store d data newId now) = d)
   \<and> (Create CocktailIngredient \<in> set (store_calls (ci_store d data newId now)) \<longrightarrow>
        store_calls (ci_store d data newId now)
          = [FindById Cocktail, FindById Ingredient, Create CocktailIngredient])"
  using ci_store_missing_reference [of c i q d newId now]
    ci_store_not_created_unchanged [of d data newId now]
    ci_store_checks_before_insert [of d data newId now]
  by blast

theorem ci_store_reference_checks_witness:
  "isValid absentId \<and> isValid limeId \<and> ''1 oz'' \<noteq> []
   \<and> castObjectId absentId \<notin> set (map c_id (cocktails bar))
   \<and> status (resp (ci_store bar \<lparr>b_cocktailId = Some absentId, b_ingredientId = Some limeId,
                                 b_quantity = Some ''1 oz''\<rparr> ''eeeeeeeeeeeeeeeeeeeeeee1'' 9)) = 404
   \<and> store_after (ci_store bar \<lparr>b_cocktailId = Some absentId, b_ingredientId = Some limeId,
                                 b_quantity = Some ''1 oz''\<rparr> ''eeeeeeeeeeeeeeeeeeeeeee1'' 9) = bar
   \<and> store_calls (ci_store bar \<lparr>b_cocktailId = Some waterId, b_ingredientId = Some limeId,
                                 b_quantity = Some ''1 oz''\<rparr> ''eeeeeeeeeeeeeeeeeeeeeee1'' 9)
       = [FindById Cocktail, FindById Ingredient, Create CocktailIngredient]"
proof -
  have v: "isValid absentId \<and> isValid limeId \<and> ''1 oz'' \<noteq> []"
    by (simp add: isValid_examples)
  have a: "castObjectId absentId \<notin> set (map c_id (cocktails bar))" by code_simp
  have k: "Create CocktailIngredient \<in> set (store_calls (ci_store bar
             \<lparr>b_cocktailId = Some waterId, b_ingredientId = Some limeId,
               b_quantity = Some ''1 oz''\<rparr> ''eeeeeeeeeeeeeeeeeeeeeee1'' 9))"
    by code_simp
  from ci_store_reference_checks [of absentId limeId "''1 oz''" bar "''eeeeeeeeeeeeeeeeeeeeeee1''" 9
      "\<lparr>b_cocktailId = Some waterId, b_ingredientId = Some limeId, b_quantity = Some ''1 oz''\<rparr>"]
    v a k
  show ?thesis by simp
qed

theorem ci_store_reference_checks_counterexample:
  "isValid absentId \<and> isValid limeId
   \<and> castObjectId absentId \<notin> set (map c_id (cocktails bar))
   \<and> resp (ci_store bar \<lparr>b_cocktailId = Some absentId, b_ingredientId = Some limeId,
                          b_quantity = None\<rparr> ''eeeeeeeeeeeeeeeeeeeeeee1'' 9)
       = BadRequest ''Missing required fields: cocktailId, ingredientId, quantity''
   \<and> status (resp (ci_store bar \<lparr>b_cocktailId = Some absentId, b_ingredientId = Some limeId,
                          b_quantity = None\<rparr> ''eeeeeeeeeeeeeeeeeeeeeee1'' 9)) \<noteq> 404"
  by code_simp

subsection \<open>C6: the ingredient list\<close>

text \<open>Claim C6, as amended.  The ingredient list answers 200 with all ingredients of the store,
  for every store; for an empty store this is 200 with an empty array, never 404.\<close>

theorem ingredient_index_always_ok:
  "resp (ingredient_index d) = Ok (ingredients d) \<and> status (resp (ingredient_index d)) = 200
   \<and> store_after (ingredient_index d) = d"
  by (simp add: ingredient_index_def resp_def store_after_def)

theorem ingredient_index_empty_counterexample:
  "ingredients empty_store = [] \<and> resp (ingredient_index empty_store) = Ok []
   \<and> status (resp (ingredient_index empty_store)) \<noteq> 404"
  by (simp add: ingredient_index_def resp_def empty_store_def)

subsection \<open>C7: validation of an ingredient create request\<close>

lemma typeof_boolean_iff: "typeof v = ''boolean'' \<longleftrightarrow> (\<exists>b. v = JBool b)"
  by (cases v) simp_all

lemma ingredient_store_rejects:
  "\<not> truthy (ib_name data) \<or> \<not> truthy (ib_description data)
     \<or> \<not> truthy (ib_image data) \<or> (\<forall>b. ib_isAlcoholic data \<noteq> JBool b) \<Longrightarrow>
   ingredient_store d data newId now
     = (BadRequest ''Missing required fields: name, description, isAlcoholic, image'', d, [])"
  unfolding ingredient_store_def typeof_boolean_iff by auto

lemma ingredient_store_creates:
  assumes "truthy (ib_name data)" "truthy (ib_description data)" "truthy (ib_image data)"
    "ib_isAlcoholic data = JBool b"
    "castString (ib_name data) = Some n" "castString (ib_description data) = Some ds"
    "castString (ib_image data) = Some im"
  shows "ingredient_store d data newId now =
     (Created \<lparr> i_id = newId, i_name = n, i_description = Some ds, i_isAlcoholic = b,
                i_image = Some im, i_createdAt = now, i_updatedAt = now \<rparr>,
      d\<lparr>ingredients := ingredients d @
          [\<lparr> i_id = newId, i_name = n, i_description = Some ds, i_isAlcoholic = b,
             i_image = Some im, i_createdAt = now, i_updatedAt = now \<rparr>]\<rparr>,
      [Create Ingredient])"
  using assms by (simp add: ingredient_store_def Let_def)

lemma ingredient_store_cast_fails:
  assumes "truthy (ib_name data)" "truthy (ib_description data)" "truthy (ib_image data)"
    "ib_isAlcoholic data = JBool b"
    "castString (ib_name data) = None \<or> castString (ib_description data) = None
       \<or> castString (ib_image data) = None"
  shows "ingredient_store d data newId now
           = (InternalServerError ''Error creating ingredient'', d, [])"
  using assms by (auto simp: ingredient_store_def split: option.splits)

text \<open>Claim C7, as amended.  An ingredient create request answers 400, persists nothing and calls
  the store not at all if \<open>name\<close>, \<open>description\<close> or
  \<open>image\<close> is absent or falsy, or if \<open>isAlcoholic\<close> is not a boolean.
  If the four tests pass, \<open>false\<close> for \<open>isAlcoholic\<close> included, and
  the three values can be cast to the string type of the schema, as every non-empty string
  can, the ingredient is appended to the store and returned with 201.  If the four tests pass
  and one of the three values cannot be cast, as an array and an object without an identifier
  string cannot, the request answers 500 and persists nothing.\<close>

theorem ingredient_store_validation:
  "(\<not> truthy (ib_name data) \<or> \<not> truthy (ib_description data)
      \<or> \<not> truthy (ib_image data) \<or> (\<forall>b. ib_isAlcoholic data \<noteq> JBool b) \<longrightarrow>
      status (resp (ingredient_store d data newId now)) = 400
      \<and> store_after (ingredient_store d data newId now) = d
      \<and> store_calls (ingredient_store d data newId now) = [])
   \<and> (truthy (ib_name data) \<and> truthy (ib_description data) \<and> truthy (ib_image data)
      \<and> ib_isAlcoholic data = JBool b
      \<and> castString (ib_name data) = Some n \<and> castString (ib_description data) = Some ds
      \<and> castString (ib_image data) = Some im \<longrightarrow>
      resp (ingredient_store d data newId now) =
        Created \<lparr> i_id = newId, i_name = n, i_description = Some ds, i_isAlcoholic = b,
                   i_image = Some im, i_createdAt = now, i_updatedAt = now \<rparr>
      \<and> status (resp (ingredient_store d data newId now)) = 201
      \<and> ingredients (store_after (ingredient_store d data newId now)) = ingredients d @
          [\<lparr> i_id = newId, i_name = n, i_description = Some ds, i_isAlcoholic = b,
             i_image = Some im, i_createdAt = now, i_updatedAt = now \<rparr>])
   \<and> (ib_name data = JString n \<and> n \<noteq> [] \<and> ib_description data = JString ds \<and> ds \<noteq> []
      \<and> ib_image data = JString im \<and> im \<noteq> [] \<and> ib_isAlcoholic data = JBool b \<longrightarrow>
      resp (ingredient_store d data newId now) =
        Created \<lparr> i_id = newId, i_name = n, i_description = Some ds, i_isAlcoholic = b,
                   i_image = Some im, i_createdAt = now, i_updatedAt = now \<rparr>
      \<and> ingredients (store_after (ingredient_store d data newId now)) = ingredients d @
          [\<lparr> i_id = newId, i_name = n, i_description = Some ds, i_isAlcoholic = b,
             i_image = Some im, i_createdAt = now, i_updatedAt = now \<rparr>])
   \<and> (truthy (ib_name data) \<and> truthy (ib_description data) \<and> truthy (ib_image data)
      \<and> ib_isAlcoholic data = JBool b
      \<and> (castString (ib_name data) = None \<or> castString (ib_description data) = None
          \<or> castString (ib_image data) = None) \<longrightarrow>
      status (resp (ingredient_store d data newId now)) = 500
      \<and> store_after (ingredient_store d data newId now) = d
      \<and> store_calls (ingredient_store d data newId now) = [])"
proof (intro conjI impI)
  assume "\<not> truthy (ib_name data) \<or> \<not> truthy (ib_description data)
      \<or> \<not> truthy (ib_image data) \<or> (\<forall>b. ib_isAlcoholic data \<noteq> JBool b)"
  from ingredient_store_rejects [OF this, of d newId now]
  show "status (resp (ingredient_store d data newId now)) = 400"
    "store_after (ingredient_store d data newId now) = d"
    "store_calls (ingredient_store d data newId now) = []"
    by (simp_all add: resp_def store_after_def store_calls_def)
next
  assume a: "truthy (ib_name data) \<and> truthy (ib_description data) \<and> truthy (ib_image data)
      \<and> ib_isAlcoholic data = JBool b
      \<and> castString (ib_name data) = Some n \<and> castString (ib_description data) = Some ds
      \<and> castString (ib_image data) = Some im"
  then have "ingredient_store d data newId now =
     (Created \<lparr> i_id = newId, i_name = n, i_description = Some ds, i_isAlcoholic = b,
                i_image = Some im, i_createdAt = now, i_updatedAt = now \<rparr>,
      d\<lparr>ingredients := ingredients d @
          [\<lparr> i_id = newId, i_name = n, i_description = Some ds, i_isAlcoholic = b,
             i_image = Some im, i_createdAt = now, i_updatedAt = now \<rparr>]\<rparr>,
      [Create Ingredient])"
    by (intro ingredient_store_creates) simp_all
  then show "resp (ingredient_store d data newId now) =
        Created \<lparr> i_id = newId, i_name = n, i_description = Some ds, i_isAlcoholic = b,
                   i_image = Some im, i_createdAt = now, i_updatedAt = now \<rparr>"
    "status (resp (ingredient_store d data newId now)) = 201"
    "ingredients (store_after (ingredient_store d data newId now)) = ingredients d @
          [\<lparr> i_id = newId, i_name = n, i_description = Some ds, i_isAlcoholic = b,
             i_image = Some im, i_createdAt = now, i_updatedAt = now \<rparr>]"
    by (simp_all add: resp_def store_after_def)
next
  assume a: "ib_name data = JString n \<and> n \<noteq> [] \<and> ib_description data = JString ds \<and> ds \<noteq> []
      \<and> ib_image data = JString im \<and> im \<noteq> [] \<and> ib_isAlcoholic data = JBool b"
  then have "ingredient_store d data newId now =
     (Created \<lparr> i_id = newId, i_name = n, i_description = Some ds, i_isAlcoholic = b,
                i_image = Some im, i_createdAt = now, i_updatedAt = now \<rparr>,
      d\<lparr>ingredients := ingredients d @
          [\<lparr> i_id = newId, i_name = n, i_description = Some ds, i_isAlcoholic = b,
             i_image = Some im, i_createdAt = now, i_updatedAt = now \<rparr>]\<rparr>,
      [Create Ingredient])"
    by (intro ingredient_store_creates) simp_all
  then show "resp (ingredient_store d data newId now) =
        Created \<lparr> i_id = newId, i_name = n, i_description = Some ds, i_isAlcoholic = b,
                   i_image = Some im, i_createdAt = now, i_updatedAt = now \<rparr>"
    "ingredients (store_after (ingredient_store d data newId now)) = ingredients d @
          [\<lparr> i_id = newId, i_name = n, i_description = Some ds, i_isAlcoholic = b,
             i_image = Some im, i_createdAt = now, i_updatedAt = now \<rparr>]"
    by (simp_all add: resp_def store_after_def)
next
  assume a: "truthy (ib_name data) \<and> truthy (ib_description data) \<and> truthy (ib_image data)
      \<and> ib_isAlcoholic data = JBool b
      \<and> (castString (ib_name data) = None \<or> castString (ib_description data) = None
          \<or> castString (ib_image data) = None)"
  then have "ingredient_store d data newId now
           = (InternalServerError ''Error creating ingredient'', d, [])"
    by (intro ingredient_store_cast_fails [of data b]) simp_all
  then show "status (resp (ingredient_store d data newId now)) = 500"
    "store_after (ingredient_store d data newId now) = d"
    "store_calls (ingredient_store d data newId now) = []"
    by (simp_all add: resp_def store_after_def store_calls_def)
qed

theorem ingredient_store_validation_witness:
  "status (resp (ingredient_store empty_store
      \<lparr>ib_name = JString ''Lime'', ib_description = JString ''Sour'', ib_isAlcoholic = JBool False,
        ib_image = JString ''lime.png''\<rparr> limeId 1)) = 201
   \<and> ingredients (store_after (ingredient_store empty_store
      \<lparr>ib_name = JString ''Lime'', ib_description = JString ''Sour'', ib_isAlcoholic = JBool False,
        ib_image = JString ''lime.png''\<rparr> limeId 1))
      = [\<lparr> i_id = limeId, i_name = ''Lime'', i_description = Some ''Sour'', i_isAlcoholic = False,
             i_image = Some ''lime.png'', i_createdAt = 1, i_updatedAt = 1 \<rparr>]
   \<and> status (resp (ingredient_store empty_store
      \<lparr>ib_name = JString ''Lime'', ib_description = JString ''Sour'',
        ib_isAlcoholic = JString ''false'', ib_image = JString ''lime.png''\<rparr> limeId 1)) = 400
   \<and> status (resp (ingredient_store empty_store
      \<lparr>ib_name = JString ''Lime'', ib_description = JString ''Sour'', ib_isAlcoholic = JUndefined,
        ib_image = JString ''lime.png''\<rparr> limeId 1)) = 400
   \<and> status (resp (ingredient_store empty_store
      \<lparr>ib_name = JString ''Lime'', ib_description = JUndefined, ib_isAlcoholic = JBool True,
        ib_image = JString ''lime.png''\<rparr> limeId 1)) = 400
   \<and> status (resp (ingredient_store empty_store
      \<lparr>ib_name = JString ''Lime'', ib_description = JString ''Sour'', ib_isAlcoholic = JBool True,
        ib_image = JArray []\<rparr> limeId 1)) = 500"
proof -
  have e: "ingredients empty_store = []" by (simp add: empty_store_def)
  from
    ingredient_store_validation [of "\<lparr>ib_name = JString ''Lime'', ib_description = JString ''Sour'',
       ib_isAlcoholic = JBool False, ib_image = JString ''lime.png''\<rparr>" empty_store limeId 1
       False "''Lime''" "''Sour''" "''lime.png''"]
    ingredient_store_validation [of "\<lparr>ib_name = JString ''Lime'', ib_description = JString ''Sour'',
       ib_isAlcoholic = JString ''false'', ib_image = JString ''lime.png''\<rparr>" empty_store limeId 1]
    ingredient_store_validation [of "\<lparr>ib_name = JString ''Lime'', ib_description = JString ''Sour'',
       ib_isAlcoholic = JUndefined, ib_image = JString ''lime.png''\<rparr>" empty_store limeId 1]
    ingredient_store_validation [of "\<lparr>ib_name = JString ''Lime'', ib_description = JUndefined,
       ib_isAlcoholic = JBool True, ib_image = JString ''lime.png''\<rparr>" empty_store limeId 1]
    ingredient_store_validation [of "\<lparr>ib_name = JString ''Lime'', ib_description = JString ''Sour'',
       ib_isAlcoholic = JBool True, ib_image = JArray []\<rparr>" empty_store limeId 1 True]
    e
  show ?thesis by simp
qed

theorem ingredient_store_validation_counterexample:
  "truthy (JObject [(''en'', JString ''Lime'')]) \<and> truthy (JString ''Sour'')
   \<and> typeof (JBool False) = ''boolean'' \<and> truthy (JString ''lime.png'')
   \<and> resp (ingredient_store empty_store
        \<lparr>ib_name = JObject [(''en'', JString ''Lime'')], ib_description = JString ''Sour'',
          ib_isAlcoholic = JBool False, ib_image = JString ''lime.png''\<rparr> limeId 1)
       = InternalServerError ''Error creating ingredient''
   \<and> status (resp (ingredient_store empty_store
        \<lparr>ib_name = JObject [(''en'', JString ''Lime'')], ib_description = JString ''Sour'',
          ib_isAlcoholic = JBool False, ib_image = JString ''lime.png''\<rparr> limeId 1)) \<noteq> 201
   \<and> ingredients (store_after (ingredient_store empty_store
        \<lparr>ib_name = JObject [(''en'', JString ''Lime'')], ib_description = JString ''Sour'',
          ib_isAlcoholic = JBool False, ib_image = JString ''lime.png''\<rparr> limeId 1)) = []"
  by (simp add: ingredient_store_def resp_def store_after_def empty_store_def)

subsection \<open>C8: sorting the cocktail list\<close>

lemma cocktail_index_sort_name_sorted:
  "resp (cocktail_index d g a (Some ''name'')) = Ok cs \<Longrightarrow> sorted (map c_name cs) \<and> cs \<noteq> []"
  by (auto simp: cocktail_index_def resp_def Let_def sortOptions_def
           split: option.splits sum.splits if_splits prod.splits)

lemma cocktail_index_sort_name_all:
  "resp (cocktail_index d None None (Some ''name'')) =
     (if cocktails d = [] then NotFound ''No cocktails found matching the filters''
      else Ok (sort_key c_name (cocktails d)))"
  by (simp add: cocktail_index_def resp_def Let_def sortOptions_def sort_key_Nil_iff)

lemma cocktail_index_bad_sort:
  "s \<noteq> [] \<Longrightarrow> s \<notin> {''name'', ''category'', ''date''} \<Longrightarrow> s \<notin> set objectPrototypeKeys \<Longrightarrow>
   status (resp (cocktail_index d g a (Some s))) = 400"
  by (auto simp: cocktail_index_def resp_def Let_def sortOptions_def
           split: option.splits sum.splits if_splits prod.splits)

text \<open>Claim C8, as amended.  With \<open>sort=name\<close>, a 200 response of the cocktail list is
  non-empty and in non-decreasing lexicographic order of \<open>name\<close>, under every
  combination of the other filters; without filters it is the sorted list of all cocktails.  A
  non-empty sort value that is none of \<open>name\<close>, \<open>category\<close>,
  \<open>date\<close>, and not the name of a property that every object inherits, answers 400.
  (An empty sort value is treated as an absent one.)\<close>

theorem cocktail_index_sort:
  "(resp (cocktail_index d g a (Some ''name'')) = Ok cs \<longrightarrow> sorted (map c_name cs) \<and> cs \<noteq> [])
   \<and> resp (cocktail_index d None None (Some ''name'')) =
       (if cocktails d = [] then NotFound ''No cocktails found matching the filters''
        else Ok (sort_key c_name (cocktails d)))
   \<and> (s \<noteq> [] \<and> s \<notin> {''name'', ''category'', ''date''} \<and> s \<notin> set objectPrototypeKeys
        \<longrightarrow> status (resp (cocktail_index d g a (Some s))) = 400)"
  using cocktail_index_sort_name_sorted [of d g a cs] cocktail_index_sort_name_all [of d]
    cocktail_index_bad_sort [of s d g a]
  by blast

theorem cocktail_index_sort_witness:
  "resp (cocktail_index bar None None (Some ''name'')) = Ok [limeade, margarita, water]
   \<and> sorted (map c_name [limeade, margarita, water])
   \<and> ''price'' \<noteq> [] \<and> ''price'' \<notin> {''name'', ''category'', ''date''}
   \<and> ''price'' \<notin> set objectPrototypeKeys
   \<and> status (resp (cocktail_index bar None None (Some ''price''))) = 400"
proof -
  have r: "resp (cocktail_index bar None None (Some ''name'')) = Ok [limeade, margarita, water]"
    by code_simp
  have p: "''price'' \<noteq> [] \<and> ''price'' \<notin> {''name'', ''category'', ''date''}
           \<and> ''price'' \<notin> set objectPrototypeKeys"
    by (simp add: objectPrototypeKeys_def)
  from cocktail_index_sort [of bar None None "[limeade, margarita, water]" "''price''"] r p
  show ?thesis by simp
qed

theorem cocktail_index_sort_counterexample:
  "'''' \<notin> {''name'', ''category'', ''date''}
   \<and> resp (cocktail_index bar None None (Some '''')) = Ok [margarita, limeade, water]
   \<and> status (resp (cocktail_index bar None None (Some ''''))) = 200
   \<and> ''toString'' \<notin> {''name'', ''category'', ''date''}
   \<and> status (resp (cocktail_index bar None None (Some ''toString''))) \<noteq> 400"
  by (simp add: cocktail_index_def resp_def bar_def Let_def sortOptions_def objectPrototypeKeys_def)

subsection \<open>C9: the isAlcoholic filter replaces the ingredient filter\<close>

lemma cocktail_index_overwrite:
  "isValid g \<Longrightarrow> a \<noteq> [] \<Longrightarrow>
   resp (cocktail_index d (Some g) (Some a) s) = resp (cocktail_index d None (Some a) s)"
  by (simp add: cocktail_index_def resp_def Let_def isValid_not_Nil
           split: option.splits sum.splits)

text \<open>Claim C9.  In the cocktail list, when the ingredient filter has passed its format check and
  the \<open>isAlcoholic\<close> filter is present as well, the response is the one for the
  \<open>isAlcoholic\<close> filter alone, for every sort parameter: the constraint of the
  ingredient filter on the \<open>_id\<close> key has been replaced.\<close>

theorem cocktail_index_isAlcoholic_overwrites_ingredient:
  "isValid g \<Longrightarrow> a \<noteq> [] \<Longrightarrow>
   resp (cocktail_index d (Some g) (Some a) s) = resp (cocktail_index d None (Some a) s)"
  by (rule cocktail_index_overwrite)

theorem cocktail_index_isAlcoholic_overwrites_ingredient_witness:
  "isValid tequilaId \<and> ''false'' \<noteq> []
   \<and> resp (cocktail_index bar (Some tequilaId) (Some ''false'') None) = Ok [limeade, water]
   \<and> resp (cocktail_index bar (Some tequilaId) None None) = Ok [margarita]"
proof -
  have v: "isValid tequilaId" by (simp add: isValid_examples)
  have ne: "''false'' \<noteq> []" by simp
  have r: "resp (cocktail_index bar None (Some ''false'') None) = Ok [limeade, water]"
    by code_simp
  have g: "resp (cocktail_index bar (Some tequilaId) None None) = Ok [margarita]"
    by code_simp
  from cocktail_index_isAlcoholic_overwrites_ingredient [OF v ne, of bar None] r g v
  show ?thesis by simp
qed

subsection \<open>C10: updating a CocktailIngredient checks no reference\<close>

lemma ci_update_dangling:
  assumes "isValid ident"
    and "find (\<lambda>r. ci_id r = castObjectId ident) (cocktail_ingredients d) = Some r"
    and "b_cocktailId data = Some c" "isValid c" "castable (b_ingredientId data)"
  shows "resp (ci_update d ident data now) = Ok (ci_apply data now r)"
    and "cocktailId (ci_apply data now r) = castObjectId c"
    and "ci_apply data now r \<in> set (cocktail_ingredients (store_after (ci_update d ident data now)))"
    and "cocktails (store_after (ci_update d ident data now)) = cocktails d"
    and "store_calls (ci_update d ident data now) = [FindByIdAndUpdate CocktailIngredient]"
  using assms find_update_first_mem [OF assms(2), of "ci_apply data now"]
  by (simp_all add: ci_update_def resp_def store_after_def store_calls_def ci_apply_def)

lemma ci_update_body_never_400:
  "isValid ident \<Longrightarrow> status (resp (ci_update d ident data now)) \<noteq> 400"
  by (simp add: ci_update_def resp_def split: option.splits)

text \<open>Claim C10.  An update of an existing CocktailIngredient row that writes a well-formed
  \<open>cocktailId\<close> naming no cocktail of the store answers 200; the row it returns is
  in the store afterwards and references a cocktail that is not.  The only store call is the
  update itself, no lookup of the cocktail or the ingredient; and for a well-formed route
  identifier no value of the body ever leads to a 400.\<close>

theorem ci_update_no_reference_check:
  "(isValid ident \<and> find (\<lambda>r. ci_id r = castObjectId ident) (cocktail_ingredients d) = Some r
     \<and> b_cocktailId data = Some c \<and> isValid c \<and> castable (b_ingredientId data)
     \<and> castObjectId c \<notin> set (map c_id (cocktails d)) \<longrightarrow>
   status (resp (ci_update d ident data now)) = 200
   \<and> (\<exists>r'. resp (ci_update d ident data now) = Ok r'
         \<and> r' \<in> set (cocktail_ingredients (store_after (ci_update d ident data now)))
         \<and> cocktailId r' \<notin> set (map c_id (cocktails (store_after (ci_update d ident data now)))))
   \<and> store_calls (ci_update d ident data now) = [FindByIdAndUpdate CocktailIngredient])
   \<and> (isValid ident \<longrightarrow> status (resp (ci_update d ident data now)) \<noteq> 400)"
  using ci_update_dangling [of ident d r data c now] ci_update_body_never_400 [of ident d data now]
  by auto

theorem ci_update_no_reference_check_witness:
  "isValid ''ccccccccccccccccccccccc1'' \<and> isValid absentId
   \<and> castObjectId absentId \<notin> set (map c_id (cocktails bar))
   \<and> list_all (\<lambda>x. cocktailId x \<in> set (map c_id (cocktails bar))
          \<and> ingredientId x \<in> set (map i_id (ingredients bar))) (cocktail_ingredients bar)
   \<and> status (resp (ci_update bar ''ccccccccccccccccccccccc1''
        \<lparr>b_cocktailId = Some absentId, b_ingredientId = None, b_quantity = None\<rparr> 9)) = 200
   \<and> (\<exists>r'. resp (ci_update bar ''ccccccccccccccccccccccc1''
                 \<lparr>b_cocktailId = Some absentId, b_ingredientId = None, b_quantity = None\<rparr> 9) = Ok r'
         \<and> r' \<in> set (cocktail_ingredients (store_after (ci_update bar ''ccccccccccccccccccccccc1''
                 \<lparr>b_cocktailId = Some absentId, b_ingredientId = None, b_quantity = None\<rparr> 9)))
         \<and> cocktailId r' \<notin> set (map c_id (cocktails (store_after (ci_update bar
                 ''ccccccccccccccccccccccc1''
                 \<lparr>b_cocktailId = Some absentId, b_ingredientId = None, b_quantity = None\<rparr> 9)))))"
proof -
  have v: "isValid ''ccccccccccccccccccccccc1'' \<and> isValid absentId"
    by (simp add: isValid_examples)
  have f: "find (\<lambda>r. ci_id r = castObjectId ''ccccccccccccccccccccccc1'') (cocktail_ingredients bar)
             = Some row1"
    by code_simp
  have a: "castObjectId absentId \<notin> set (map c_id (cocktails bar))" by code_simp
  have i: "list_all (\<lambda>x. cocktailId x \<in> set (map c_id (cocktails bar))
          \<and> ingredientId x \<in> set (map i_id (ingredients bar))) (cocktail_ingredients bar)"
    by code_simp
  from ci_update_no_reference_check [of "''ccccccccccccccccccccccc1''" bar row1
      "\<lparr>b_cocktailId = Some absentId, b_ingredientId = None, b_quantity = None\<rparr>" absentId 9]
    v f a
  have "status (resp (ci_update bar ''ccccccccccccccccccccccc1''
        \<lparr>b_cocktailId = Some absentId, b_ingredientId = None, b_quantity = None\<rparr> 9)) = 200
   \<and> (\<exists>r'. resp (ci_update bar ''ccccccccccccccccccccccc1''
                 \<lparr>b_cocktailId = Some absentId, b_ingredientId = None, b_quantity = None\<rparr> 9) = Ok r'
         \<and> r' \<in> set (cocktail_ingredients (store_after (ci_update bar ''ccccccccccccccccccccccc1''
                 \<lparr>b_cocktailId = Some absentId, b_ingredientId = None, b_quantity = None\<rparr> 9)))
         \<and> cocktailId r' \<notin> set (map c_id (cocktails (store_after (ci_update bar
                 ''ccccccccccccccccccccccc1''
                 \<lparr>b_cocktailId = Some absentId, b_ingredientId = None, b_quantity = None\<rparr> 9)))))"
    by simp
  with v a i show ?thesis by blast
qed

end
